theory Spec2Isabelle
  imports Complex_Main "HOL-Library.AList"
begin

section \<open>Data model (engine/data\_structures.py)\<close>

text \<open>
  Python floats are modelled as real numbers, so rounding is outside the model.
  A \<open>datetime\<close> is a real number of seconds; every clock reading
  (\<open>datetime.utcnow()\<close>, \<open>time.time()\<close>) is a parameter \<open>now\<close> of the operation
  that takes it.  Fields of different classes that share a name carry a prefix for the
  class: \<open>o_\<close> Order, \<open>t_\<close> Trade, \<open>p_\<close> Position, \<open>e_\<close> Event.
\<close>

type_synonym datetime = real

datatype OrderType = MARKET | LIMIT | STOP | STOP_LIMIT | TRAILING_STOP | ICEBERG | TWAP | VWAP

datatype OrderSide = BUY | SELL

datatype OrderStatus =
  PENDING_NEW | NEW | PARTIALLY_FILLED | FILLED | PENDING_CANCEL | CANCELLED | REJECTED | EXPIRED

datatype TimeInForce = GTC | IOC | FOK | GTD

datatype EventType =
  MARKET_DATA | ORDER_UPDATE | TRADE_UPDATE | POSITION_UPDATE | STRATEGY_SIGNAL | RISK_CHECK
  | SYSTEM_EVENT

record Order =
  o_order_id :: string
  o_instrument_id :: string
  o_order_type :: OrderType
  o_side :: OrderSide
  o_quantity :: real
  o_price :: "real option"
  o_stop_price :: "real option"
  o_time_in_force :: TimeInForce
  o_exchange :: string
  o_created_at :: datetime
  o_updated_at :: datetime
  o_status :: OrderStatus
  o_filled_quantity :: real
  o_average_fill_price :: "real option"
  o_client_order_id :: "string option"
  o_parent_order_id :: "string option"
  o_strategy_id :: "string option"
  o_tags :: "(string \<times> string) list"
  o_expiry_date :: "datetime option"

record Trade =
  t_trade_id :: string
  t_order_id :: string
  t_instrument_id :: string
  t_quantity :: real
  t_price :: real
  t_side :: OrderSide
  t_timestamp :: datetime
  t_exchange :: string
  t_commission :: real
  t_commission_currency :: string

record Position =
  p_instrument_id :: string
  p_quantity :: real
  p_average_entry_price :: real
  p_current_price :: "real option"
  p_realized_pnl :: real
  p_unrealized_pnl :: real
  p_position_value :: real
  p_timestamp :: datetime
  p_open_orders :: "string list"
  p_strategy_allocations :: "(string \<times> real) list"
  p_exchange :: "string option"

text \<open>\<open>Position(instrument_id=i)\<close>: the dataclass defaults, stamped with the clock.\<close>

definition new_Position :: "string \<Rightarrow> datetime \<Rightarrow> Position" where
  "new_Position i now =
     \<lparr>p_instrument_id = i, p_quantity = 0, p_average_entry_price = 0, p_current_price = None,
      p_realized_pnl = 0, p_unrealized_pnl = 0, p_position_value = 0, p_timestamp = now,
      p_open_orders = [], p_strategy_allocations = [], p_exchange = None\<rparr>"

text \<open>\<open>Order.is_active\<close>.\<close>

definition is_active :: "Order \<Rightarrow> bool" where
  "is_active ord = (o_status ord \<in> {PENDING_NEW, NEW, PARTIALLY_FILLED})"

subsection \<open>Position.update\_price\<close>

definition update_price :: "real \<Rightarrow> Position \<Rightarrow> Position" where
  "update_price new_price self =
     (if p_quantity self = 0 then
        self\<lparr>p_unrealized_pnl := 0, p_position_value := 0, p_current_price := Some new_price\<rparr>
      else
        (let self1 = self\<lparr>p_current_price := Some new_price,
                           p_position_value := p_quantity self * new_price\<rparr>
         in if p_quantity self1 > 0 then
              self1\<lparr>p_unrealized_pnl :=
                       p_quantity self1 * (new_price - p_average_entry_price self1)\<rparr>
            else
              self1\<lparr>p_unrealized_pnl :=
                       p_quantity self1 * (p_average_entry_price self1 - new_price)\<rparr>))"

subsection \<open>Position.apply\_trade\<close>

definition apply_trade :: "Trade \<Rightarrow> Position \<Rightarrow> Position" where
  "apply_trade trade self =
     (let old_quantity = p_quantity self;
          old_cost_basis =
            (if old_quantity \<noteq> 0 then \<bar>old_quantity\<bar> * p_average_entry_price self else 0);
          trade_quantity = (if t_side trade = BUY then t_quantity trade else - t_quantity trade);
          new_quantity = old_quantity + trade_quantity;
          reducing = ((old_quantity > 0 \<and> trade_quantity < 0)
                      \<or> (old_quantity < 0 \<and> trade_quantity > 0))
      in
      if reducing \<and> \<not> \<bar>trade_quantity\<bar> \<le> \<bar>old_quantity\<bar> then
        \<comment> \<open>the position crosses zero: realise the whole old position and return early\<close>
        (let self1 =
               (if old_quantity > 0 then
                  self\<lparr>p_realized_pnl := p_realized_pnl self
                         + old_quantity * (t_price trade - p_average_entry_price self)\<rparr>
                else
                  self\<lparr>p_realized_pnl := p_realized_pnl self
                         + \<bar>old_quantity\<bar> * (p_average_entry_price self - t_price trade)\<rparr>);
             new_position_quantity =
               (\<bar>trade_quantity\<bar> - \<bar>old_quantity\<bar>) * (if trade_quantity > 0 then 1 else - 1)
         in update_price (t_price trade)
              (self1\<lparr>p_average_entry_price := t_price trade,
                      p_quantity := new_position_quantity\<rparr>))
      else
        (let closing_quantity = min \<bar>trade_quantity\<bar> \<bar>old_quantity\<bar>;
             self1 =
               (if reducing then
                  (if old_quantity > 0 then
                     self\<lparr>p_realized_pnl := p_realized_pnl self
                            + closing_quantity * (t_price trade - p_average_entry_price self)\<rparr>
                   else
                     self\<lparr>p_realized_pnl := p_realized_pnl self
                            + closing_quantity * (p_average_entry_price self - t_price trade)\<rparr>)
                else self);
             self2 =
               (if new_quantity \<noteq> 0 then
                  (if old_quantity = 0 \<or> (old_quantity > 0 \<and> new_quantity > 0)
                      \<or> (old_quantity < 0 \<and> new_quantity < 0) then
                     self1\<lparr>p_average_entry_price :=
                              (old_cost_basis + \<bar>trade_quantity\<bar> * t_price trade)
                              / \<bar>new_quantity\<bar>\<rparr>
                   else self1)
                else self1\<lparr>p_average_entry_price := 0\<rparr>)
         in update_price (t_price trade) (self2\<lparr>p_quantity := new_quantity\<rparr>)))"

text \<open>A trade with the dataclass defaults for the fields a scenario leaves open.\<close>

definition mk_trade :: "string \<Rightarrow> string \<Rightarrow> OrderSide \<Rightarrow> real \<Rightarrow> real \<Rightarrow> Trade" where
  "mk_trade oid i sd q px =
     \<lparr>t_trade_id = ''t'', t_order_id = oid, t_instrument_id = i, t_quantity = q, t_price = px,
      t_side = sd, t_timestamp = 0, t_exchange = [], t_commission = 0,
      t_commission_currency = ''USD''\<rparr>"

section \<open>Event bus (engine/event\_processor.py)\<close>

text \<open>The exceptions that the modelled code can raise.\<close>

datatype py_error = ZeroDivisionError | TypeError | QueueFull

text \<open>
  The payload of an event is \<open>Any\<close> in the source; the handlers test it with
  \<open>isinstance\<close>, which is a case distinction here.
\<close>

datatype payload = NoData | OrderData Order | TradeData Trade | PositionData Position

record Event =
  e_event_type :: EventType
  e_timestamp :: datetime
  e_data :: payload
  e_source :: string
  e_target :: "string option"
  e_sequence_id :: "int option"
  e_priority :: int

text \<open>\<open>Event(event_type=..., data=..., source=...)\<close> with the dataclass defaults.\<close>

definition mk_Event :: "EventType \<Rightarrow> payload \<Rightarrow> string \<Rightarrow> datetime \<Rightarrow> Event" where
  "mk_Event et d src now =
     \<lparr>e_event_type = et, e_timestamp = now, e_data = d, e_source = src, e_target = None,
      e_sequence_id = None, e_priority = 1\<rparr>"

text \<open>
  The state of an \<open>EventProcessor\<close>.  The queue is the heap list of the entries
  \<open>(priority, enqueue time, event)\<close>.  A handler is an opaque
  coroutine: it is identified by a number, and \<open>ep_delivered\<close> records every call
  \<open>handler(event)\<close> in the order the calls are made.  The \<open>defaultdict\<close>s
  \<open>sequence_counters\<close>, \<open>pending_events\<close> and \<open>_throttle_counters\<close> are total
  functions with the default \<open>0\<close> or the empty dictionary; \<open>_throttle_last_reset\<close>,
  whose default is a clock reading, is a map and the read that inserts the default is
  written out.  The latency and queue-size metrics are left out.
\<close>

type_synonym entry = "int \<times> real \<times> Event"

record EventProcessor =
  ep_maxsize :: int
  ep_event_queue :: "entry list"
  ep_handlers :: "EventType \<rightharpoonup> nat list"
  ep_sequence_counters :: "string \<Rightarrow> int"
  ep_pending_events :: "string \<Rightarrow> (int \<times> Event) list"
  ep_dropped_events_count :: int
  ep_running :: bool
  ep_throttle_levels :: "EventType \<rightharpoonup> int"
  ep_throttle_counters :: "EventType \<Rightarrow> int"
  ep_throttle_last_reset :: "EventType \<rightharpoonup> real"
  ep_delivered :: "(nat \<times> Event) list"

definition new_EventProcessor :: "int \<Rightarrow> EventProcessor" where
  "new_EventProcessor max_queue_size =
     \<lparr>ep_maxsize = max_queue_size, ep_event_queue = [], ep_handlers = Map.empty,
      ep_sequence_counters = (\<lambda>_. 0), ep_pending_events = (\<lambda>_. []),
      ep_dropped_events_count = 0, ep_running = False, ep_throttle_levels = Map.empty,
      ep_throttle_counters = (\<lambda>_. 0), ep_throttle_last_reset = Map.empty,
      ep_delivered = []\<rparr>"

definition add_handler :: "EventType \<Rightarrow> nat \<Rightarrow> EventProcessor \<Rightarrow> EventProcessor" where
  "add_handler event_type handler self =
     self\<lparr>ep_handlers := (ep_handlers self)
             (event_type \<mapsto> (case ep_handlers self event_type of None \<Rightarrow> [] | Some hs \<Rightarrow> hs)
                            @ [handler])\<rparr>"

subsection \<open>The asyncio priority queue\<close>

text \<open>
  \<open>asyncio.PriorityQueue\<close> keeps its entries in a list that \<open>heapq\<close> maintains as
  a binary heap.  The entries are the tuples \<open>(priority, time, event)\<close>, and
  \<open>heapq\<close> compares them with \<open><\<close> as Python compares tuples: by the first
  component in which they differ.  Two entries that agree on priority and time are
  equal when their events are equal (an \<open>Event\<close> is a dataclass, compared field by
  field), and \<open><\<close> is then false; when the events differ, Python goes on to compare
  the events, which have no ordering, and raises \<open>TypeError\<close>: \<open>None\<close> here.
\<close>

definition entry_lt :: "entry \<Rightarrow> entry \<Rightarrow> bool option" where
  "entry_lt a b =
     (if fst a \<noteq> fst b then Some (fst a < fst b)
      else if fst (snd a) \<noteq> fst (snd b) then Some (fst (snd a) < fst (snd b))
      else if snd (snd a) = snd (snd b) then Some False
      else None)"

text \<open>
  \<open>heapq._siftdown\<close>: the entry at \<open>pos\<close> moves towards the root while it is less
  than its parent.  The first component of the result is the exception raised, if
  any; the list is the heap as the call leaves it.  Every index read is in range:
  \<open>pos\<close> is below the length of the list in each call that is made.
\<close>

function siftdown :: "entry list \<Rightarrow> nat \<Rightarrow> nat \<Rightarrow> py_error option \<times> entry list" where
  "siftdown heap startpos pos =
     (if startpos < pos then
        (case entry_lt (heap ! pos) (heap ! ((pos - 1) div 2)) of
           None \<Rightarrow> (Some TypeError, heap)
         | Some lt \<Rightarrow>
             if lt then
               siftdown (heap[(pos - 1) div 2 := heap ! pos, pos := heap ! ((pos - 1) div 2)])
                 startpos ((pos - 1) div 2)
             else (None, heap))
      else (None, heap))"
  by pat_completeness auto

termination
  by (relation "measure (\<lambda>(heap, startpos, pos). pos)") auto

declare siftdown.simps [simp del]

text \<open>
  The loop of \<open>heapq._siftup\<close>: the smaller child moves up until \<open>pos\<close> is a
  leaf.  The result carries the position reached.
\<close>

function siftup_loop :: "entry list \<Rightarrow> nat \<Rightarrow> py_error option \<times> entry list \<times> nat" where
  "siftup_loop heap pos =
     (if pos < length heap div 2 then
        (case (if 2 * pos + 2 < length heap then
                 (case entry_lt (heap ! (2 * pos + 1)) (heap ! (2 * pos + 2)) of
                    None \<Rightarrow> None
                  | Some lt \<Rightarrow> Some (if lt then 2 * pos + 1 else 2 * pos + 2))
               else Some (2 * pos + 1)) of
           None \<Rightarrow> (Some TypeError, heap, pos)
         | Some childpos \<Rightarrow>
             siftup_loop (heap[pos := heap ! childpos, childpos := heap ! pos]) childpos)
      else (None, heap, pos))"
  by pat_completeness auto

termination
  by (relation "measure (\<lambda>(heap, pos). length heap - pos)")
     (auto split: if_splits option.splits)

declare siftup_loop.simps [simp del]

definition siftup :: "entry list \<Rightarrow> nat \<Rightarrow> py_error option \<times> entry list" where
  "siftup heap pos =
     (case siftup_loop heap pos of
        (Some e, heap1, _) \<Rightarrow> (Some e, heap1)
      | (None, heap1, pos1) \<Rightarrow> siftdown heap1 pos pos1)"

text \<open>\<open>heapq.heappush\<close>: the item is appended and sifted down from the last index.\<close>

definition heappush :: "entry list \<Rightarrow> entry \<Rightarrow> py_error option \<times> entry list" where
  "heappush heap item = siftdown (heap @ [item]) 0 (length heap)"

text \<open>
  \<open>heapq.heappop\<close> on a heap that is not empty: the last entry is taken off; if
  entries remain, the root is the result, the last entry takes its place and is
  sifted.  When the sifting raises, the root is lost with the exception.
\<close>

definition heappop :: "entry list \<Rightarrow> py_error option \<times> entry \<times> entry list" where
  "heappop heap =
     (let lastelt = last heap; heap1 = butlast heap
      in if heap1 = [] then (None, lastelt, [])
         else (case siftup (heap1[0 := lastelt]) 0 of
                 (e, heap2) \<Rightarrow> (e, heap1 ! 0, heap2)))"

text \<open>
  \<open>asyncio.Queue.full()\<close>: a queue with \<open>maxsize <= 0\<close> is never full.
\<close>

definition queue_full :: "int \<Rightarrow> entry list \<Rightarrow> bool" where
  "queue_full maxsize q = (if maxsize \<le> 0 then False else int (length q) \<ge> maxsize)"

text \<open>
  \<open>await queue.put(item)\<close>: while the queue is full the coroutine waits for a free
  slot; then the item is pushed on the heap, which may raise \<open>TypeError\<close>.  Only
  \<open>put_nowait\<close> raises \<open>QueueFull\<close>; \<open>put\<close> has no outcome that raises it.
\<close>

datatype put_outcome = PutDone "entry list" | PutWaits | PutRaises py_error "entry list"

definition queue_put :: "int \<Rightarrow> entry \<Rightarrow> entry list \<Rightarrow> put_outcome" where
  "queue_put maxsize item q =
     (if queue_full maxsize q then PutWaits
      else (case heappush q item of
              (None, q1) \<Rightarrow> PutDone q1
            | (Some e, q1) \<Rightarrow> PutRaises e q1))"

text \<open>
  \<open>await queue.get()\<close>: on an empty queue the coroutine waits; otherwise the least
  entry is popped off the heap, which may raise \<open>TypeError\<close>.
\<close>

datatype get_outcome = GetDone entry "entry list" | GetWaits | GetRaises py_error "entry list"

definition queue_get :: "entry list \<Rightarrow> get_outcome" where
  "queue_get q =
     (if q = [] then GetWaits
      else (case heappop q of
              (None, item, q1) \<Rightarrow> GetDone item q1
            | (Some e, _, q1) \<Rightarrow> GetRaises e q1))"

subsection \<open>EventProcessor.publish\<close>

text \<open>
  What a call does: it returns a value, it is suspended (here: in \<open>put\<close> on a full
  queue), or an exception leaves it.  The clock is read once per call.
\<close>

datatype 'a outcome = Returns 'a | Waits | Raises py_error

definition publish ::
  "real \<Rightarrow> Event \<Rightarrow> EventProcessor \<Rightarrow> bool outcome \<times> EventProcessor" where
  "publish now event self =
     (let et = e_event_type event;
          throttled =
            (case ep_throttle_levels self et of
               None \<Rightarrow> (False, self)
             | Some max_events \<Rightarrow>
                 (let last_reset =
                        (case ep_throttle_last_reset self et of None \<Rightarrow> now | Some t \<Rightarrow> t);
                      self1 = self\<lparr>ep_throttle_last_reset :=
                                     (ep_throttle_last_reset self)(et \<mapsto> last_reset)\<rparr>;
                      self2 =
                        (if now - last_reset \<ge> 1 then
                           self1\<lparr>ep_throttle_counters := (ep_throttle_counters self1)(et := 0),
                                  ep_throttle_last_reset :=
                                    (ep_throttle_last_reset self1)(et \<mapsto> now)\<rparr>
                         else self1)
                  in if ep_throttle_counters self2 et \<ge> max_events then
                       (True, self2\<lparr>ep_dropped_events_count :=
                                      ep_dropped_events_count self2 + 1\<rparr>)
                     else
                       (False, self2\<lparr>ep_throttle_counters :=
                                       (ep_throttle_counters self2)
                                         (et := ep_throttle_counters self2 et + 1)\<rparr>)))
      in case throttled of
           (True, self3) \<Rightarrow> (Returns False, self3)
         | (False, self3) \<Rightarrow>
             (case queue_put (ep_maxsize self3) (e_priority event, now, event)
                     (ep_event_queue self3) of
                PutDone q \<Rightarrow> (Returns True, self3\<lparr>ep_event_queue := q\<rparr>)
              | PutWaits \<Rightarrow> (Waits, self3)
              | PutRaises QueueFull q \<Rightarrow>
                  (Returns False, self3\<lparr>ep_dropped_events_count :=
                                          ep_dropped_events_count self3 + 1\<rparr>)
              | PutRaises e q \<Rightarrow> (Raises e, self3\<lparr>ep_event_queue := q\<rparr>)))"

text \<open>Publishing a list of events one after the other, each at its own clock reading.\<close>

fun publish_all ::
  "(real \<times> Event) list \<Rightarrow> EventProcessor \<Rightarrow> bool outcome list \<times> EventProcessor" where
  "publish_all [] self = ([], self)"
| "publish_all ((now, event) # rest) self =
     (case publish now event self of
        (r, self1) \<Rightarrow> (case publish_all rest self1 of (rs, self2) \<Rightarrow> (r # rs, self2)))"


subsection \<open>Dispatch\<close>

text \<open>\<open>_process_event\<close>: every handler of the event's type is called, in order.\<close>

definition process_event :: "Event \<Rightarrow> EventProcessor \<Rightarrow> EventProcessor" where
  "process_event event self =
     (case ep_handlers self (e_event_type event) of
        None \<Rightarrow> self
      | Some hs \<Rightarrow> self\<lparr>ep_delivered := ep_delivered self @ map (\<lambda>h. (h, event)) hs\<rparr>)"

text \<open>
  The \<open>while next_seq in self.pending_events[source]\<close> loop of
  \<open>_handle_sequenced_event\<close>.
\<close>

function drain_pending :: "string \<Rightarrow> int \<Rightarrow> EventProcessor \<Rightarrow> EventProcessor" where
  "drain_pending source next_seq self =
     (case map_of (ep_pending_events self source) next_seq of
        None \<Rightarrow> self
      | Some pending_event \<Rightarrow>
          drain_pending source (next_seq + 1)
            ((process_event pending_event
                (self\<lparr>ep_pending_events := (ep_pending_events self)
                         (source := AList.delete next_seq (ep_pending_events self source))\<rparr>))
             \<lparr>ep_sequence_counters := (ep_sequence_counters self)
                 (source := ep_sequence_counters self source + 1)\<rparr>))"
  by pat_completeness auto

termination
proof (relation "measure (\<lambda>(source, next_seq, self). length (ep_pending_events self source))")
  show "wf (measure (\<lambda>(source, next_seq, self). length (ep_pending_events self source)))"
    by simp
next
  fix source :: string and next_seq :: int and self :: EventProcessor and pending_event :: Event
  assume found: "map_of (ep_pending_events self source) next_seq = Some pending_event"
  have mem: "(next_seq, pending_event) \<in> set (ep_pending_events self source)"
    using found by (rule map_of_SomeD)
  have "length (AList.delete next_seq (ep_pending_events self source))
        < length (ep_pending_events self source)"
    unfolding AList.delete_eq by (rule length_filter_less[OF mem]) simp
  then show "((source, next_seq + 1,
               (process_event pending_event
                  (self\<lparr>ep_pending_events := (ep_pending_events self)
                           (source := AList.delete next_seq (ep_pending_events self source))\<rparr>))
               \<lparr>ep_sequence_counters := (ep_sequence_counters self)
                   (source := ep_sequence_counters self source + 1)\<rparr>),
              (source, next_seq, self))
             \<in> measure (\<lambda>(source, next_seq, self). length (ep_pending_events self source))"
    by (simp add: process_event_def split: option.split)
qed

declare drain_pending.simps [simp del]

definition handle_sequenced_event :: "Event \<Rightarrow> EventProcessor \<Rightarrow> bool \<times> EventProcessor" where
  "handle_sequenced_event event self =
     (case e_sequence_id event of
        None \<Rightarrow> (True, self)
      | Some sequence_id \<Rightarrow>
          (let source = e_source event;
               expected_seq = ep_sequence_counters self source
           in if sequence_id = expected_seq then
                (True, drain_pending source (expected_seq + 1)
                         (self\<lparr>ep_sequence_counters := (ep_sequence_counters self)
                                  (source := ep_sequence_counters self source + 1)\<rparr>))
              else if sequence_id > expected_seq then
                (False, self\<lparr>ep_pending_events := (ep_pending_events self)
                                (source := AList.update sequence_id event
                                             (ep_pending_events self source))\<rparr>)
              else (False, self)))"

text \<open>
  One iteration of \<open>event_loop\<close>; \<open>None\<close> when the queue is empty and the loop
  waits in \<open>get\<close>.  An exception of \<open>get\<close> is caught by the loop's
  \<open>except Exception\<close>, which logs it and goes on.
\<close>

definition event_loop_step :: "EventProcessor \<Rightarrow> EventProcessor option" where
  "event_loop_step self =
     (case queue_get (ep_event_queue self) of
        GetWaits \<Rightarrow> None
      | GetRaises e q \<Rightarrow> Some (self\<lparr>ep_event_queue := q\<rparr>)
      | GetDone (_, _, event) q \<Rightarrow>
          (case handle_sequenced_event event (self\<lparr>ep_event_queue := q\<rparr>) of
             (should_process, self1) \<Rightarrow>
               Some (if should_process then process_event event self1 else self1)))"

text \<open>
  \<open>event_loop\<close>, observed after at most \<open>n\<close> iterations of \<open>while self.running\<close>;
  \<open>start\<close> sets the flag and enters the loop.
\<close>

fun event_loop :: "nat \<Rightarrow> EventProcessor \<Rightarrow> EventProcessor option" where
  "event_loop 0 self = Some self"
| "event_loop (Suc n) self =
     (if ep_running self then
        (case event_loop_step self of None \<Rightarrow> None | Some self1 \<Rightarrow> event_loop n self1)
      else Some self)"

definition start :: "nat \<Rightarrow> EventProcessor \<Rightarrow> EventProcessor option" where
  "start n self = event_loop n (self\<lparr>ep_running := True\<rparr>)"

section \<open>Order manager (engine/order\_manager.py)\<close>

text \<open>
  The state of an \<open>OrderManager\<close>.  A callback is an opaque coroutine, identified by
  a number.  An operation returns its result, the new state and the list of the events
  it hands to \<open>event_processor.publish\<close>, in order; an event carries the order as it
  is when the event is made.  Mutating an order object found in \<open>self.orders\<close> is an
  update of the table at the key it was found under.  The history copy
  \<open>Order.from_dict(order.to_dict())\<close> is the order itself, records being values.
\<close>

record OrderManager =
  om_orders :: "string \<rightharpoonup> Order"
  om_active_orders :: "string set"
  om_order_history :: "string \<rightharpoonup> Order list"
  om_trades :: "string \<rightharpoonup> Trade list"
  om_order_handlers :: "string \<rightharpoonup> nat"

definition new_OrderManager :: OrderManager where
  "new_OrderManager =
     \<lparr>om_orders = Map.empty, om_active_orders = {}, om_order_history = Map.empty,
      om_trades = Map.empty, om_order_handlers = Map.empty\<rparr>"


definition save_order_history :: "Order \<Rightarrow> OrderManager \<Rightarrow> OrderManager" where
  "save_order_history ord self =
     self\<lparr>om_order_history := (om_order_history self)
             (o_order_id ord \<mapsto>
                (case om_order_history self (o_order_id ord) of None \<Rightarrow> [] | Some h \<Rightarrow> h)
                @ [ord])\<rparr>"

definition update_order_state :: "Order \<Rightarrow> OrderManager \<Rightarrow> OrderManager" where
  "update_order_state ord self =
     save_order_history ord
       (self\<lparr>om_orders := (om_orders self)(o_order_id ord \<mapsto> ord),
              om_active_orders :=
                (if is_active ord then insert (o_order_id ord) (om_active_orders self)
                 else om_active_orders self - {o_order_id ord})\<rparr>)"

text \<open>
  \<open>_handle_trade_update\<close>.  The first component is the exception that leaves the
  handler, if any: the division raises \<open>ZeroDivisionError\<close> when the new filled
  quantity is zero, after the trade is stored and the filled quantity is updated.
\<close>

definition handle_trade_update ::
  "datetime \<Rightarrow> Event \<Rightarrow> OrderManager \<Rightarrow> py_error option \<times> OrderManager \<times> Event list" where
  "handle_trade_update now event self =
     (case e_data event of
        TradeData trade \<Rightarrow>
          (let self1 = self\<lparr>om_trades := (om_trades self)
                               (t_order_id trade \<mapsto>
                                  (case om_trades self (t_order_id trade) of
                                     None \<Rightarrow> [] | Some ts \<Rightarrow> ts) @ [trade])\<rparr>
           in case om_orders self1 (t_order_id trade) of
                None \<Rightarrow> (None, self1, [])
              | Some order0 \<Rightarrow>
                  (let order1 = order0\<lparr>o_filled_quantity :=
                                         o_filled_quantity order0 + t_quantity trade\<rparr>
                   in if o_average_fill_price order1 \<noteq> None \<and> o_filled_quantity order1 = 0
                      then
                        (Some ZeroDivisionError,
                         self1\<lparr>om_orders := (om_orders self1)(t_order_id trade \<mapsto> order1)\<rparr>,
                         [])
                      else
                        (let order2 =
                               (case o_average_fill_price order1 of
                                  None \<Rightarrow> order1\<lparr>o_average_fill_price := Some (t_price trade)\<rparr>
                                | Some avg \<Rightarrow>
                                    (let prev_fill_qty =
                                           o_filled_quantity order1 - t_quantity trade
                                     in order1\<lparr>o_average_fill_price :=
                                                 Some ((avg * prev_fill_qty
                                                        + t_price trade * t_quantity trade)
                                                       / o_filled_quantity order1)\<rparr>));
                             filled = (\<bar>o_filled_quantity order2 - o_quantity order2\<bar>
                                        < 1 / 10 ^ 10);
                             order3 =
                               (if filled then order2\<lparr>o_status := FILLED\<rparr>
                                else if o_filled_quantity order2 > 0 then
                                  order2\<lparr>o_status := PARTIALLY_FILLED\<rparr>
                                else order2);
                             order4 = order3\<lparr>o_updated_at := now\<rparr>;
                             self2 = self1\<lparr>om_orders :=
                                             (om_orders self1)(t_order_id trade \<mapsto> order4),
                                           om_active_orders :=
                                             (if filled then
                                                om_active_orders self1 - {o_order_id order4}
                                              else om_active_orders self1)\<rparr>
                         in (None, save_order_history order4 self2,
                             [mk_Event ORDER_UPDATE (OrderData order4) ''order_manager'' now]))))
      | _ \<Rightarrow> (None, self, []))"

text \<open>\<open>_handle_order_update\<close>; the callback of the order, if any, is called last.\<close>

definition handle_order_update :: "Event \<Rightarrow> OrderManager \<Rightarrow> OrderManager" where
  "handle_order_update event self =
     (case e_data event of
        OrderData ord \<Rightarrow> update_order_state ord self
      | _ \<Rightarrow> self)"

definition submit_order ::
  "datetime \<Rightarrow> Order \<Rightarrow> nat option \<Rightarrow> OrderManager \<Rightarrow> string \<times> OrderManager \<times> Event list"
  where
  "submit_order now ord callback self =
     (let order1 = ord\<lparr>o_status := PENDING_NEW, o_created_at := now, o_updated_at := now\<rparr>;
          self1 = update_order_state order1 self;
          self2 = (case callback of
                     None \<Rightarrow> self1
                   | Some cb \<Rightarrow>
                       self1\<lparr>om_order_handlers :=
                                (om_order_handlers self1)(o_order_id order1 \<mapsto> cb)\<rparr>)
      in (o_order_id order1, self2,
          [mk_Event ORDER_UPDATE (OrderData order1) ''order_manager'' now]))"

definition cancel_order ::
  "datetime \<Rightarrow> string \<Rightarrow> OrderManager \<Rightarrow> bool \<times> OrderManager \<times> Event list" where
  "cancel_order now order_id self =
     (case om_orders self order_id of
        None \<Rightarrow> (False, self, [])
      | Some order0 \<Rightarrow>
          if order_id \<notin> om_active_orders self then (False, self, [])
          else if o_status order0 \<notin> {NEW, PARTIALLY_FILLED} then (False, self, [])
          else
            (let order1 = order0\<lparr>o_status := PENDING_CANCEL, o_updated_at := now\<rparr>;
                 self1 = self\<lparr>om_orders := (om_orders self)(order_id \<mapsto> order1)\<rparr>
             in (True, save_order_history order1 self1,
                 [mk_Event ORDER_UPDATE (OrderData order1) ''order_manager'' now])))"


definition modify_order ::
  "datetime \<Rightarrow> string \<Rightarrow> real option \<Rightarrow> real option \<Rightarrow> OrderManager
   \<Rightarrow> bool \<times> OrderManager \<times> Event list" where
  "modify_order now order_id price quantity self =
     (case om_orders self order_id of
        None \<Rightarrow> (False, self, [])
      | Some order0 \<Rightarrow>
          if order_id \<notin> om_active_orders self then (False, self, [])
          else if o_status order0 \<notin> {NEW, PARTIALLY_FILLED} then (False, self, [])
          else
            (let modified1 =
                   (case price of None \<Rightarrow> order0 | Some p \<Rightarrow> order0\<lparr>o_price := Some p\<rparr>)
             in case quantity of
                  Some q \<Rightarrow>
                    if o_status order0 = PARTIALLY_FILLED \<and> q < o_filled_quantity order0 then
                      (False, self, [])
                    else
                      (let modified2 = modified1\<lparr>o_quantity := q, o_updated_at := now\<rparr>
                       in (True, update_order_state modified2 self,
                           [mk_Event ORDER_UPDATE (OrderData modified2) ''order_manager'' now]))
                | None \<Rightarrow>
                    (let modified2 = modified1\<lparr>o_updated_at := now\<rparr>
                     in (True, update_order_state modified2 self,
                         [mk_Event ORDER_UPDATE (OrderData modified2) ''order_manager'' now]))))"

text \<open>An order with the dataclass defaults for the fields a scenario leaves open.\<close>

definition mk_order ::
  "string \<Rightarrow> string \<Rightarrow> OrderType \<Rightarrow> OrderSide \<Rightarrow> real \<Rightarrow> real option \<Rightarrow> Order" where
  "mk_order oid i ty sd q px =
     \<lparr>o_order_id = oid, o_instrument_id = i, o_order_type = ty, o_side = sd, o_quantity = q,
      o_price = px, o_stop_price = None, o_time_in_force = GTC, o_exchange = [],
      o_created_at = 0, o_updated_at = 0, o_status = PENDING_NEW, o_filled_quantity = 0,
      o_average_fill_price = None, o_client_order_id = None, o_parent_order_id = None,
      o_strategy_id = None, o_tags = [], o_expiry_date = None\<rparr>"

section \<open>Position manager (engine/position\_manager.py)\<close>

text \<open>
  \<open>positions\<close> is a dictionary whose order of insertion \<open>get_all_positions\<close> shows:
  an association list, a new key going to the end.
\<close>

record PositionManager =
  pm_positions :: "(string \<times> Position) list"
  pm_position_updates_count :: int
  pm_last_total_pnl :: real

definition new_PositionManager :: PositionManager where
  "new_PositionManager =
     \<lparr>pm_positions = [], pm_position_updates_count = 0, pm_last_total_pnl = 0\<rparr>"

definition get_position ::
  "datetime \<Rightarrow> string \<Rightarrow> PositionManager \<Rightarrow> Position \<times> PositionManager" where
  "get_position now instrument_id self =
     (case map_of (pm_positions self) instrument_id of
        None \<Rightarrow>
          (new_Position instrument_id now,
           self\<lparr>pm_positions :=
                   pm_positions self @ [(instrument_id, new_Position instrument_id now)]\<rparr>)
      | Some pos \<Rightarrow> (pos, self))"

definition get_all_positions :: "PositionManager \<Rightarrow> Position list" where
  "get_all_positions self = map snd (pm_positions self)"

record pnl_summary =
  s_realized_pnl :: real
  s_unrealized_pnl :: real
  s_total_pnl :: real

definition get_pnl_summary :: "PositionManager \<Rightarrow> pnl_summary" where
  "get_pnl_summary self =
     (let realized_pnl = sum_list (map p_realized_pnl (map snd (pm_positions self)));
          unrealized_pnl = sum_list (map p_unrealized_pnl (map snd (pm_positions self)))
      in \<lparr>s_realized_pnl = realized_pnl, s_unrealized_pnl = unrealized_pnl,
          s_total_pnl = realized_pnl + unrealized_pnl\<rparr>)"

record position_statistics = pnl_summary +
  s_position_count :: nat
  s_long_positions :: nat
  s_short_positions :: nat
  s_flat_positions :: nat
  s_largest_long_value :: real
  s_largest_short_value :: real
  s_position_updates :: int

text \<open>\<open>max(values, default=0)\<close> and \<open>min(values, default=0)\<close>.\<close>

definition max_default :: "real list \<Rightarrow> real" where
  "max_default xs = (case xs of [] \<Rightarrow> 0 | x # rest \<Rightarrow> fold max rest x)"

definition min_default :: "real list \<Rightarrow> real" where
  "min_default xs = (case xs of [] \<Rightarrow> 0 | x # rest \<Rightarrow> fold min rest x)"

definition get_position_statistics :: "PositionManager \<Rightarrow> position_statistics" where
  "get_position_statistics self =
     (let summary = get_pnl_summary self;
          ps = map snd (pm_positions self)
      in \<lparr>s_realized_pnl = s_realized_pnl summary,
          s_unrealized_pnl = s_unrealized_pnl summary,
          s_total_pnl = s_total_pnl summary,
          s_position_count = length (pm_positions self),
          s_long_positions = length (filter (\<lambda>p. p_quantity p > 0) ps),
          s_short_positions = length (filter (\<lambda>p. p_quantity p < 0) ps),
          s_flat_positions = length (filter (\<lambda>p. p_quantity p = 0) ps),
          s_largest_long_value =
            max_default (map p_position_value (filter (\<lambda>p. p_quantity p > 0) ps)),
          s_largest_short_value =
            min_default (map p_position_value (filter (\<lambda>p. p_quantity p < 0) ps)),
          s_position_updates = pm_position_updates_count self\<rparr>)"

section \<open>Risk manager (engine/risk\_manager.py)\<close>

record PositionLimitRule =
  r_name :: string
  r_enabled :: bool
  r_violations :: int
  r_last_check_time :: datetime
  r_instrument_id :: string
  r_max_position :: real

text \<open>
  The context dictionary: the order under the key \<open>order\<close>, if there is one, and the
  tag \<open>event_type\<close>.  An \<open>Order\<close> object is always true in a condition.
\<close>

record check_context =
  c_order :: "Order option"
  c_event_type :: string

text \<open>The message of a check, with the values its f-string shows.\<close>

datatype message =
  NotApplicable
  | OrderWouldExceed real string
  | CurrentExceeds real real string
  | WithinLimits

text \<open>
  \<open>PositionLimitRule.check\<close>.  Of the risk manager only \<open>position_manager\<close> is
  read; the rule and the position manager come back as the call leaves them.
\<close>

definition check ::
  "datetime \<Rightarrow> check_context \<Rightarrow> PositionManager \<Rightarrow> PositionLimitRule
   \<Rightarrow> (bool \<times> message) \<times> PositionLimitRule \<times> PositionManager" where
  "check now ctx position_manager self =
     (let self1 = self\<lparr>r_last_check_time := now\<rparr>
      in case c_order ctx of
           Some ord \<Rightarrow>
             if o_instrument_id ord \<noteq> r_instrument_id self1 then
               ((True, NotApplicable), self1, position_manager)
             else
               (case get_position now (r_instrument_id self1) position_manager of
                  (position, pm1) \<Rightarrow>
                    (let new_position =
                           (if o_side ord = BUY then \<bar>p_quantity position + o_quantity ord\<bar>
                            else \<bar>p_quantity position - o_quantity ord\<bar>)
                     in if new_position > r_max_position self1 then
                          ((False, OrderWouldExceed (r_max_position self1)
                                     (r_instrument_id self1)),
                           self1\<lparr>r_violations := r_violations self1 + 1\<rparr>, pm1)
                        else ((True, WithinLimits), self1, pm1)))
         | None \<Rightarrow>
             (case get_position now (r_instrument_id self1) position_manager of
                (position, pm1) \<Rightarrow>
                  (let current_position = \<bar>p_quantity position\<bar>
                   in if current_position > r_max_position self1 then
                        ((False, CurrentExceeds current_position (r_max_position self1)
                                   (r_instrument_id self1)),
                         self1\<lparr>r_violations := r_violations self1 + 1\<rparr>, pm1)
                      else ((True, WithinLimits), self1, pm1))))"

definition new_PositionLimitRule :: "string \<Rightarrow> real \<Rightarrow> datetime \<Rightarrow> PositionLimitRule" where
  "new_PositionLimitRule instrument_id max_position now =
     \<lparr>r_name = ''Position limit for '' @ instrument_id, r_enabled = True, r_violations = 0,
      r_last_check_time = now, r_instrument_id = instrument_id,
      r_max_position = max_position\<rparr>"

section \<open>Scenarios\<close>

text \<open>Three market-data events of the source \<open>S\<close> with sequence numbers, and a bus
  with one handler for them.\<close>

definition seq_event :: "int \<Rightarrow> Event" where
  "seq_event n = (mk_Event MARKET_DATA NoData ''S'' 0)\<lparr>e_sequence_id := Some n\<rparr>"

definition sequenced_bus :: EventProcessor where
  "sequenced_bus = add_handler MARKET_DATA 0 (new_EventProcessor 10000)"

text \<open>A bus of capacity 1 that holds one event.\<close>

definition full_bus :: EventProcessor where
  "full_bus = snd (publish 4 (mk_Event MARKET_DATA NoData ''feed'' 4) (new_EventProcessor 1))"

text \<open>A bus with \<open>throttle_levels[MARKET_DATA] = k\<close>.\<close>

definition throttled_bus :: "int \<Rightarrow> EventProcessor" where
  "throttled_bus k = (new_EventProcessor 10000)\<lparr>ep_throttle_levels := [MARKET_DATA \<mapsto> k]\<rparr>"

definition tick :: Event where
  "tick = mk_Event MARKET_DATA NoData ''feed'' 0"

text \<open>A LIMIT BUY of 10 at 100 is submitted and filled by 3 at 99, then by 7 at 101.\<close>

definition limit_buy_10 :: Order where
  "limit_buy_10 = mk_order ''o1'' ''X'' LIMIT BUY 10 (Some 100)"

definition fill_event :: "real \<Rightarrow> real \<Rightarrow> datetime \<Rightarrow> Event" where
  "fill_event q px now =
     mk_Event TRADE_UPDATE (TradeData (mk_trade ''o1'' ''X'' BUY q px)) ''exchange'' now"

definition partial_fill_0 :: OrderManager where
  "partial_fill_0 = fst (snd (submit_order 0 limit_buy_10 None new_OrderManager))"

definition partial_fill_1 :: OrderManager where
  "partial_fill_1 = fst (snd (handle_trade_update 1 (fill_event 3 99 1) partial_fill_0))"

definition partial_fill_2 :: OrderManager where
  "partial_fill_2 = fst (snd (handle_trade_update 2 (fill_event 7 101 2) partial_fill_1))"

text \<open>The same order, acknowledged as NEW, receives one trade of 15.\<close>

definition overfill_0 :: OrderManager where
  "overfill_0 =
     handle_order_update
       (mk_Event ORDER_UPDATE (OrderData (limit_buy_10\<lparr>o_status := NEW\<rparr>)) ''exchange'' 0)
       new_OrderManager"

definition overfill_1 :: OrderManager where
  "overfill_1 = fst (snd (handle_trade_update 1 (fill_event 15 100 1) overfill_0))"

text \<open>The same acknowledged order is modified to the quantity \<open>-1\<close>.\<close>

definition shrunk_1 :: "bool \<times> OrderManager \<times> Event list" where
  "shrunk_1 = modify_order 1 ''o1'' None (Some (- 1)) overfill_0"

text \<open>An order that claims 12 filled of 10 is submitted.\<close>

definition prefilled_1 :: OrderManager where
  "prefilled_1 =
     fst (snd (submit_order 0 (limit_buy_10\<lparr>o_filled_quantity := 12\<rparr>) None
                 new_OrderManager))"

text \<open>An order manager that holds an order already filled.\<close>

definition terminal_0 :: OrderManager where
  "terminal_0 =
     handle_order_update
       (mk_Event ORDER_UPDATE
          (OrderData (limit_buy_10\<lparr>o_status := FILLED, o_filled_quantity := 10,
                                    o_average_fill_price := Some 100\<rparr>)) ''exchange'' 0)
       new_OrderManager"

text \<open>A position manager that is long 4 of \<open>X\<close>, bought at 100.\<close>

definition long_4 :: PositionManager where
  "long_4 =
     new_PositionManager
       \<lparr>pm_positions :=
          [(''X'', apply_trade (mk_trade ''o0'' ''X'' BUY 4 100) (new_Position ''X'' 0))]\<rparr>"

lemmas scenario_defs =
  seq_event_def sequenced_bus_def full_bus_def throttled_bus_def tick_def limit_buy_10_def
  fill_event_def partial_fill_0_def partial_fill_1_def partial_fill_2_def overfill_0_def
  overfill_1_def shrunk_1_def prefilled_1_def terminal_0_def mk_Event_def mk_trade_def mk_order_def new_OrderManager_def
  new_EventProcessor_def add_handler_def

lemmas order_manager_defs =
  handle_trade_update_def handle_order_update_def submit_order_def update_order_state_def
  save_order_history_def is_active_def cancel_order_def modify_order_def

lemmas event_bus_defs =
  publish_def queue_put_def queue_full_def queue_get_def entry_lt_def heappush_def heappop_def
  siftup_def event_loop_step_def handle_sequenced_event_def process_event_def

section \<open>Position arithmetic\<close>


text \<open>
  C1 (mark-to-market).  For a long position \<open>update_price\<close> stores
  \<open>q * (p - avg)\<close>; for a short position it stores \<open>q * (avg - p)\<close>, the opposite sign.
  At the short position \<open>q = -5\<close>, \<open>avg = 100\<close> marked at \<open>90\<close> the code sets
  \<open>current_price = 90\<close> and \<open>position_value = -450\<close> as claimed, but
  \<open>unrealized_pnl = -50\<close> where \<open>q * (p - avg) = 50\<close>.
\<close>

theorem update_price_short_at_90:
  "(let pos = update_price 90 ((new_Position ''X'' 0)\<lparr>p_quantity := - 5,
                                                        p_average_entry_price := 100\<rparr>)
    in p_current_price pos = Some 90 \<and> p_position_value pos = - 450
       \<and> p_unrealized_pnl pos = - 50
       \<and> p_unrealized_pnl pos \<noteq> (- 5) * (90 - 100))"
  by (simp add: update_price_def new_Position_def Let_def)

text \<open>
  C2 (long flip to short).  From a flat position, BUY 10 at 100 and then SELL 15 at 110
  give \<open>realized_pnl = 100\<close>, \<open>quantity = -5\<close>, \<open>average_entry_price = 110\<close> and
  \<open>unrealized_pnl = 0\<close>, the position being marked at 110.
\<close>

theorem apply_trade_long_flip_to_short:
  "(let pos = apply_trade (mk_trade ''o2'' ''X'' SELL 15 110)
                (apply_trade (mk_trade ''o1'' ''X'' BUY 10 100) (new_Position ''X'' 0))
    in p_realized_pnl pos = 100 \<and> p_quantity pos = - 5 \<and> p_average_entry_price pos = 110
       \<and> p_unrealized_pnl pos = 0 \<and> p_current_price pos = Some 110)"
  by (simp add: apply_trade_def update_price_def new_Position_def mk_trade_def Let_def)

section \<open>Order manager\<close>

lemma handle_trade_update_known:
  assumes "e_data event = TradeData trade"
      and "om_orders self (t_order_id trade) = Some ord"
      and "o_filled_quantity ord + t_quantity trade \<noteq> 0"
  shows "fst (handle_trade_update now event self) = None"
    and "\<exists>ord'. om_orders (fst (snd (handle_trade_update now event self))) (t_order_id trade)
                  = Some ord'
           \<and> o_quantity ord' = o_quantity ord
           \<and> o_filled_quantity ord' = o_filled_quantity ord + t_quantity trade
           \<and> o_average_fill_price ord' =
               (case o_average_fill_price ord of
                  None \<Rightarrow> Some (t_price trade)
                | Some avg \<Rightarrow>
                    Some ((avg * o_filled_quantity ord + t_price trade * t_quantity trade)
                          / (o_filled_quantity ord + t_quantity trade)))"
  using assms
  by (auto simp: handle_trade_update_def save_order_history_def Let_def split: option.splits)

lemma partial_fill_0_order: "om_orders partial_fill_0 ''o1'' = Some limit_buy_10"
  by (simp add: scenario_defs order_manager_defs Let_def)

lemma partial_fill_1_order:
  "\<exists>ord. om_orders partial_fill_1 ''o1'' = Some ord \<and> o_filled_quantity ord = 3
         \<and> o_average_fill_price ord = Some 99 \<and> o_status ord = PARTIALLY_FILLED"
  by (simp add: scenario_defs order_manager_defs Let_def)

lemma partial_fill_2_order:
  "\<exists>ord. om_orders partial_fill_2 ''o1'' = Some ord \<and> o_filled_quantity ord = 10
         \<and> o_average_fill_price ord = Some (1004 / 10) \<and> o_status ord = FILLED"
  by (simp add: scenario_defs order_manager_defs Let_def)

text \<open>
  C3 (fills).  A TRADE\_UPDATE for a known order adds the trade's quantity to
  \<open>filled_quantity\<close> and sets \<open>average_fill_price\<close> to the volume-weighted average
  \<open>(avg_old * prev_filled + price * quantity) / new_filled\<close>, or to the trade's price
  when the order has no average yet or no prior fills.  For a LIMIT BUY of 10 filled by
  3 at 99 and then 7 at 101: after the first trade \<open>filled = 3\<close>, \<open>avg = 99\<close>, status
  PARTIALLY\_FILLED; after the second \<open>filled = 10\<close>, \<open>avg = 100.4\<close>, status FILLED.
\<close>

theorem handle_trade_update_average_fill:
  "(\<forall>now event trade self ord.
      e_data event = TradeData trade \<and> om_orders self (t_order_id trade) = Some ord
      \<and> o_filled_quantity ord + t_quantity trade \<noteq> 0
      \<longrightarrow> (\<exists>ord'. om_orders (fst (snd (handle_trade_update now event self))) (t_order_id trade)
                     = Some ord'
             \<and> o_filled_quantity ord' = o_filled_quantity ord + t_quantity trade
             \<and> o_average_fill_price ord' =
                 (case o_average_fill_price ord of
                    None \<Rightarrow> Some (t_price trade)
                  | Some avg \<Rightarrow>
                      Some ((avg * o_filled_quantity ord + t_price trade * t_quantity trade)
                            / (o_filled_quantity ord + t_quantity trade)))
             \<and> (o_filled_quantity ord = 0
                  \<longrightarrow> o_average_fill_price ord' = Some (t_price trade))))
   \<and> (\<exists>ord. om_orders partial_fill_1 ''o1'' = Some ord \<and> o_filled_quantity ord = 3
          \<and> o_average_fill_price ord = Some 99 \<and> o_status ord = PARTIALLY_FILLED)
   \<and> (\<exists>ord. om_orders partial_fill_2 ''o1'' = Some ord \<and> o_filled_quantity ord = 10
          \<and> o_average_fill_price ord = Some (1004 / 10) \<and> o_status ord = FILLED)"
proof (intro conjI allI impI)
  fix now :: datetime and event :: Event and trade :: Trade and self :: OrderManager
    and ord :: Order
  assume h: "e_data event = TradeData trade \<and> om_orders self (t_order_id trade) = Some ord
             \<and> o_filled_quantity ord + t_quantity trade \<noteq> 0"
  then have nz: "o_filled_quantity ord = 0 \<Longrightarrow> t_quantity trade \<noteq> 0" by simp
  from h handle_trade_update_known(2)[of event trade self ord now]
  obtain ord' where o:
    "om_orders (fst (snd (handle_trade_update now event self))) (t_order_id trade) = Some ord'"
    "o_filled_quantity ord' = o_filled_quantity ord + t_quantity trade"
    "o_average_fill_price ord' =
       (case o_average_fill_price ord of
          None \<Rightarrow> Some (t_price trade)
        | Some avg \<Rightarrow>
            Some ((avg * o_filled_quantity ord + t_price trade * t_quantity trade)
                  / (o_filled_quantity ord + t_quantity trade)))"
    by blast
  have "o_filled_quantity ord = 0 \<Longrightarrow> o_average_fill_price ord' = Some (t_price trade)"
    using o(3) nz by (simp split: option.splits)
  with o show "\<exists>ord'. om_orders (fst (snd (handle_trade_update now event self)))
                        (t_order_id trade) = Some ord'
             \<and> o_filled_quantity ord' = o_filled_quantity ord + t_quantity trade
             \<and> o_average_fill_price ord' =
                 (case o_average_fill_price ord of
                    None \<Rightarrow> Some (t_price trade)
                  | Some avg \<Rightarrow>
                      Some ((avg * o_filled_quantity ord + t_price trade * t_quantity trade)
                            / (o_filled_quantity ord + t_quantity trade)))
             \<and> (o_filled_quantity ord = 0
                  \<longrightarrow> o_average_fill_price ord' = Some (t_price trade))"
    by blast
next
  show "\<exists>ord. om_orders partial_fill_1 ''o1'' = Some ord \<and> o_filled_quantity ord = 3
          \<and> o_average_fill_price ord = Some 99 \<and> o_status ord = PARTIALLY_FILLED"
    by (rule partial_fill_1_order)
next
  show "\<exists>ord. om_orders partial_fill_2 ''o1'' = Some ord \<and> o_filled_quantity ord = 10
          \<and> o_average_fill_price ord = Some (1004 / 10) \<and> o_status ord = FILLED"
    by (rule partial_fill_2_order)
qed

theorem handle_trade_update_average_fill_witness:
  "e_data (fill_event 3 99 1) = TradeData (mk_trade ''o1'' ''X'' BUY 3 99)
   \<and> om_orders partial_fill_0 (t_order_id (mk_trade ''o1'' ''X'' BUY 3 99)) = Some limit_buy_10
   \<and> o_filled_quantity limit_buy_10 + t_quantity (mk_trade ''o1'' ''X'' BUY 3 99) \<noteq> 0
   \<and> o_filled_quantity limit_buy_10 = 0
   \<and> (\<exists>ord'. om_orders (fst (snd (handle_trade_update 1 (fill_event 3 99 1) partial_fill_0)))
                 ''o1'' = Some ord'
         \<and> o_filled_quantity ord' = 3 \<and> o_average_fill_price ord' = Some 99)"
proof -
  have h: "e_data (fill_event 3 99 1) = TradeData (mk_trade ''o1'' ''X'' BUY 3 99)
           \<and> om_orders partial_fill_0 (t_order_id (mk_trade ''o1'' ''X'' BUY 3 99))
               = Some limit_buy_10
           \<and> o_filled_quantity limit_buy_10 + t_quantity (mk_trade ''o1'' ''X'' BUY 3 99) \<noteq> 0"
    using partial_fill_0_order by (simp add: scenario_defs)
  have z: "o_filled_quantity limit_buy_10 = 0" by (simp add: scenario_defs)
  from handle_trade_update_average_fill[THEN conjunct1, rule_format, OF h, of 1]
  obtain ord' where
    "om_orders (fst (snd (handle_trade_update 1 (fill_event 3 99 1) partial_fill_0)))
       (t_order_id (mk_trade ''o1'' ''X'' BUY 3 99)) = Some ord'"
    "o_filled_quantity ord' = o_filled_quantity limit_buy_10
                              + t_quantity (mk_trade ''o1'' ''X'' BUY 3 99)"
    "o_filled_quantity limit_buy_10 = 0
       \<longrightarrow> o_average_fill_price ord' = Some (t_price (mk_trade ''o1'' ''X'' BUY 3 99))"
    by blast
  then have "om_orders (fst (snd (handle_trade_update 1 (fill_event 3 99 1) partial_fill_0)))
               ''o1'' = Some ord'
             \<and> o_filled_quantity ord' = 3 \<and> o_average_fill_price ord' = Some 99"
    using z by (simp add: mk_trade_def)
  with h z show ?thesis by blast
qed

lemma overfill_0_order:
  "om_orders overfill_0 ''o1'' = Some (limit_buy_10\<lparr>o_status := NEW\<rparr>)"
  by (simp add: scenario_defs order_manager_defs Let_def)












lemma terminal_0_order:
  "om_orders terminal_0 ''o1''
     = Some (limit_buy_10\<lparr>o_status := FILLED, o_filled_quantity := 10,
                           o_average_fill_price := Some 100\<rparr>)"
  by (simp add: scenario_defs order_manager_defs Let_def)

text \<open>
  C8 (failed preconditions).  When the order id is unknown or the order's status is
  neither NEW nor PARTIALLY\_FILLED, \<open>cancel_order\<close> returns false, leaves the whole
  state of the order manager (orders, active set, history, trades, callbacks) as it
  was and publishes no event; the same holds for \<open>modify_order\<close>, also when the
  requested quantity is below \<open>filled_quantity\<close> for a PARTIALLY\_FILLED order.  A
  terminal status is neither NEW nor PARTIALLY\_FILLED, so cancelling a terminal order
  is such a no-op.
\<close>

theorem cancel_modify_precondition:
  "((om_orders self order_id = None
      \<or> (\<exists>ord. om_orders self order_id = Some ord \<and> o_status ord \<notin> {NEW, PARTIALLY_FILLED}))
     \<longrightarrow> cancel_order now order_id self = (False, self, []))
   \<and> ((om_orders self order_id = None
        \<or> (\<exists>ord. om_orders self order_id = Some ord
              \<and> (o_status ord \<notin> {NEW, PARTIALLY_FILLED}
                  \<or> (o_status ord = PARTIALLY_FILLED
                      \<and> (\<exists>q. quantity = Some q \<and> q < o_filled_quantity ord)))))
       \<longrightarrow> modify_order now order_id price quantity self = (False, self, []))"
  by (auto simp: cancel_order_def modify_order_def Let_def split: option.splits)

theorem cancel_modify_precondition_witness:
  "(\<exists>ord. om_orders terminal_0 ''o1'' = Some ord \<and> o_status ord \<notin> {NEW, PARTIALLY_FILLED})
   \<and> cancel_order 5 ''o1'' terminal_0 = (False, terminal_0, [])
   \<and> (\<exists>ord. om_orders partial_fill_1 ''o1'' = Some ord \<and> o_status ord = PARTIALLY_FILLED
          \<and> (\<exists>q. Some 2 = Some q \<and> q < o_filled_quantity ord))
   \<and> modify_order 5 ''o1'' None (Some 2) partial_fill_1 = (False, partial_fill_1, [])
   \<and> om_orders terminal_0 ''zz'' = None
   \<and> cancel_order 5 ''zz'' terminal_0 = (False, terminal_0, [])"
proof -
  have a: "\<exists>ord. om_orders terminal_0 ''o1'' = Some ord
                 \<and> o_status ord \<notin> {NEW, PARTIALLY_FILLED}"
    using terminal_0_order by simp
  have b: "\<exists>ord. om_orders partial_fill_1 ''o1'' = Some ord \<and> o_status ord = PARTIALLY_FILLED
                 \<and> (\<exists>q. Some (2::real) = Some q \<and> q < o_filled_quantity ord)"
    using partial_fill_1_order by auto
  have c: "om_orders terminal_0 ''zz'' = None"
    by (simp add: scenario_defs order_manager_defs Let_def)
  from a cancel_modify_precondition[of terminal_0 "''o1''" 5 None None]
  have a': "cancel_order 5 ''o1'' terminal_0 = (False, terminal_0, [])" by blast
  from b cancel_modify_precondition[of partial_fill_1 "''o1''" 5 "Some 2" None]
  have b': "modify_order 5 ''o1'' None (Some 2) partial_fill_1 = (False, partial_fill_1, [])"
    by blast
  from c cancel_modify_precondition[of terminal_0 "''zz''" 5 None None]
  have c': "cancel_order 5 ''zz'' terminal_0 = (False, terminal_0, [])" by blast
  from a a' b b' c c' show ?thesis by blast
qed

section \<open>Event bus\<close>

text \<open>
  C4 (full queue).  The queue of capacity 1 holds one event and no throttle is set.
  \<open>publish\<close> then neither returns false nor counts a drop: it waits in
  \<open>queue.put\<close>, the state is as before and \<open>dropped_events_count\<close> is still 0.
\<close>

theorem publish_full_queue_waits:
  "queue_full (ep_maxsize full_bus) (ep_event_queue full_bus)
   \<and> publish 5 (mk_Event MARKET_DATA NoData ''feed'' 5) full_bus = (Waits, full_bus)
   \<and> fst (publish 5 (mk_Event MARKET_DATA NoData ''feed'' 5) full_bus) \<noteq> Returns False
   \<and> ep_dropped_events_count full_bus = 0
   \<and> ep_dropped_events_count (snd (publish 5 (mk_Event MARKET_DATA NoData ''feed'' 5) full_bus))
       = 0"
  by (simp add: scenario_defs event_bus_defs siftdown.simps Let_def)

text \<open>
  C6 (sequence order).  The events of source \<open>S\<close> with sequence numbers 0, 2, 1 are
  published in that order and the started loop runs three times.  The handler is
  called with 0, then 2, then 1: when 1 arrives, the buffered 2 is processed inside
  \<open>_handle_sequenced_event\<close>, before the loop processes 1 itself.
\<close>

theorem sequenced_delivery_0_2_1:
  "(case start 3 (snd (publish_all [(1, seq_event 0), (2, seq_event 2), (3, seq_event 1)]
                         sequenced_bus)) of
      None \<Rightarrow> False
    | Some bus \<Rightarrow>
        map (e_sequence_id \<circ> snd) (ep_delivered bus) = [Some 0, Some 2, Some 1]
        \<and> map (e_sequence_id \<circ> snd) (ep_delivered bus) \<noteq> [Some 0, Some 1, Some 2]
        \<and> ep_sequence_counters bus ''S'' = 3)"
  by (simp add: start_def scenario_defs event_bus_defs siftdown.simps siftup_loop.simps
        drain_pending.simps numeral_3_eq_3 Let_def)










section \<open>Risk rules and positions\<close>

text \<open>
  C9 (position limit).  With an order on another instrument the rule passes.  With
  an order on the rule's instrument it fails exactly when \<open>|q + order.quantity|\<close>
  (BUY) or \<open>|q - order.quantity|\<close> (SELL) exceeds \<open>max_position\<close>, where \<open>q\<close> is the
  quantity of the position \<open>get_position\<close> returns.  With no order in the context it
  fails exactly when \<open>|q|\<close> exceeds \<open>max_position\<close>.
\<close>

theorem check_position_limit:
  "(let q = p_quantity (fst (get_position now (r_instrument_id rule) pm));
        passed = fst (fst (check now ctx pm rule))
    in (\<forall>ord. c_order ctx = Some ord \<and> o_instrument_id ord \<noteq> r_instrument_id rule
               \<longrightarrow> passed)
       \<and> (\<forall>ord. c_order ctx = Some ord \<and> o_instrument_id ord = r_instrument_id rule
               \<longrightarrow> (\<not> passed \<longleftrightarrow>
                      (if o_side ord = BUY then \<bar>q + o_quantity ord\<bar>
                       else \<bar>q - o_quantity ord\<bar>) > r_max_position rule))
       \<and> (c_order ctx = None \<longrightarrow> (\<not> passed \<longleftrightarrow> \<bar>q\<bar> > r_max_position rule)))"
  by (auto simp: check_def Let_def split: option.splits prod.splits)

theorem check_position_limit_witness:
  "c_order \<lparr>c_order = Some (mk_order ''o9'' ''X'' MARKET BUY 2 None), c_event_type = ''order''\<rparr>
     = Some (mk_order ''o9'' ''X'' MARKET BUY 2 None)
   \<and> o_instrument_id (mk_order ''o9'' ''X'' MARKET BUY 2 None)
       = r_instrument_id (new_PositionLimitRule ''X'' 5 0)
   \<and> p_quantity (fst (get_position 1 ''X'' long_4)) = 4
   \<and> \<not> fst (fst (check 1 \<lparr>c_order = Some (mk_order ''o9'' ''X'' MARKET BUY 2 None),
                            c_event_type = ''order''\<rparr> long_4
                     (new_PositionLimitRule ''X'' 5 0)))
   \<and> c_order \<lparr>c_order = None, c_event_type = ''periodic''\<rparr> = None
   \<and> fst (fst (check 1 \<lparr>c_order = None, c_event_type = ''periodic''\<rparr> long_4
                   (new_PositionLimitRule ''X'' 5 0)))
   \<and> o_instrument_id (mk_order ''o9'' ''X'' MARKET BUY 2 None)
       \<noteq> r_instrument_id (new_PositionLimitRule ''Y'' 1 0)
   \<and> fst (fst (check 1 \<lparr>c_order = Some (mk_order ''o9'' ''X'' MARKET BUY 2 None),
                          c_event_type = ''order''\<rparr> long_4
                   (new_PositionLimitRule ''Y'' 1 0)))"
proof -
  let ?ord = "mk_order ''o9'' ''X'' MARKET BUY 2 None"
  let ?ctx = "\<lparr>c_order = Some ?ord, c_event_type = ''order''\<rparr>"
  let ?per = "\<lparr>c_order = None, c_event_type = ''periodic''\<rparr>"
  have q: "p_quantity (fst (get_position 1 ''X'' long_4)) = 4"
    by (simp add: long_4_def get_position_def new_PositionManager_def new_Position_def
          apply_trade_def update_price_def mk_trade_def Let_def)
  have rx: "r_instrument_id (new_PositionLimitRule ''X'' 5 0) = ''X''"
           "r_max_position (new_PositionLimitRule ''X'' 5 0) = 5"
           "r_instrument_id (new_PositionLimitRule ''Y'' 1 0) = ''Y''"
    by (simp_all add: new_PositionLimitRule_def)
  have o: "o_instrument_id ?ord = ''X''" "o_side ?ord = BUY" "o_quantity ?ord = 2"
    by (simp_all add: mk_order_def)
  have a: "\<not> fst (fst (check 1 ?ctx long_4 (new_PositionLimitRule ''X'' 5 0)))"
    using check_position_limit[of 1 "new_PositionLimitRule ''X'' 5 0" long_4 ?ctx]
    by (simp add: Let_def q rx o)
  have b: "fst (fst (check 1 ?per long_4 (new_PositionLimitRule ''X'' 5 0)))"
    using check_position_limit[of 1 "new_PositionLimitRule ''X'' 5 0" long_4 ?per]
    by (simp add: Let_def q rx)
  have c: "fst (fst (check 1 ?ctx long_4 (new_PositionLimitRule ''Y'' 1 0)))"
    using check_position_limit[of 1 "new_PositionLimitRule ''Y'' 1 0" long_4 ?ctx]
    by (simp add: Let_def rx o)
  show ?thesis using a b c q by (simp add: rx o)
qed

text \<open>
  C10 (lazy creation).  For an instrument that is not in the position table,
  \<open>get_position\<close> returns a fresh flat position (quantity, average entry price and
  realized P\&L all 0) and puts it into the table, the entries of all other
  instruments staying as they were.  So a \<open>PositionLimitRule.check\<close> that reaches
  \<open>get_position\<close> (a periodic check, or an order on the rule's instrument) for an
  instrument that never traded leaves a table in which \<open>get_all_positions\<close> lists the
  new position and \<open>get_position_statistics\<close> counts it.
\<close>

theorem get_position_inserts:
  assumes "map_of (pm_positions pm) i = None"
  shows "get_position now i pm =
           (new_Position i now,
            pm\<lparr>pm_positions := pm_positions pm @ [(i, new_Position i now)]\<rparr>)
         \<and> p_quantity (new_Position i now) = 0
         \<and> p_average_entry_price (new_Position i now) = 0
         \<and> p_realized_pnl (new_Position i now) = 0
         \<and> (\<forall>j. j \<noteq> i \<longrightarrow>
               map_of (pm_positions (snd (get_position now i pm))) j = map_of (pm_positions pm) j)
         \<and> (\<forall>rule ctx. r_instrument_id rule = i
               \<and> (c_order ctx = None \<or> (\<exists>ord. c_order ctx = Some ord \<and> o_instrument_id ord = i))
               \<longrightarrow> (let pm' = snd (snd (check now ctx pm rule))
                    in map_of (pm_positions pm') i = Some (new_Position i now)
                       \<and> get_all_positions pm' = get_all_positions pm @ [new_Position i now]
                       \<and> s_position_count (get_position_statistics pm')
                           = s_position_count (get_position_statistics pm) + 1
                       \<and> s_flat_positions (get_position_statistics pm')
                           = s_flat_positions (get_position_statistics pm) + 1))"
  using assms
  by (auto simp: get_position_def check_def get_all_positions_def get_position_statistics_def
        new_Position_def Let_def map_of_append map_add_def split: option.splits prod.splits)

theorem get_position_inserts_witness:
  "map_of (pm_positions long_4) ''Y'' = None
   \<and> get_position 1 ''Y'' long_4 =
       (new_Position ''Y'' 1,
        long_4\<lparr>pm_positions := pm_positions long_4 @ [(''Y'', new_Position ''Y'' 1)]\<rparr>)
   \<and> r_instrument_id (new_PositionLimitRule ''Y'' 1 0) = ''Y''
   \<and> c_order \<lparr>c_order = None, c_event_type = ''periodic''\<rparr> = None
   \<and> get_all_positions
       (snd (snd (check 1 \<lparr>c_order = None, c_event_type = ''periodic''\<rparr> long_4
                    (new_PositionLimitRule ''Y'' 1 0))))
       = get_all_positions long_4 @ [new_Position ''Y'' 1]
   \<and> s_position_count
       (get_position_statistics
          (snd (snd (check 1 \<lparr>c_order = None, c_event_type = ''periodic''\<rparr> long_4
                       (new_PositionLimitRule ''Y'' 1 0))))) = 2"
proof -
  let ?per = "\<lparr>c_order = None, c_event_type = ''periodic''\<rparr>"
  let ?rule = "new_PositionLimitRule ''Y'' 1 0"
  have h: "map_of (pm_positions long_4) ''Y'' = None"
    by (simp add: long_4_def new_PositionManager_def)
  have r: "r_instrument_id ?rule = ''Y''"
    by (simp add: new_PositionLimitRule_def)
  have n: "s_position_count (get_position_statistics long_4) = 1"
    by (simp add: long_4_def new_PositionManager_def get_position_statistics_def Let_def)
  note t = get_position_inserts[OF h, of 1]
  have g: "get_position 1 ''Y'' long_4 =
             (new_Position ''Y'' 1,
              long_4\<lparr>pm_positions := pm_positions long_4 @ [(''Y'', new_Position ''Y'' 1)]\<rparr>)"
    using t by blast
  have "r_instrument_id ?rule = ''Y''
        \<and> (c_order ?per = None \<or> (\<exists>ord. c_order ?per = Some ord \<and> o_instrument_id ord = ''Y''))"
    using r by simp
  with t have "let pm' = snd (snd (check 1 ?per long_4 ?rule))
               in map_of (pm_positions pm') ''Y'' = Some (new_Position ''Y'' 1)
                  \<and> get_all_positions pm' = get_all_positions long_4 @ [new_Position ''Y'' 1]
                  \<and> s_position_count (get_position_statistics pm')
                      = s_position_count (get_position_statistics long_4) + 1
                  \<and> s_flat_positions (get_position_statistics pm')
                      = s_flat_positions (get_position_statistics long_4) + 1"
    by blast
  then have "get_all_positions (snd (snd (check 1 ?per long_4 ?rule)))
               = get_all_positions long_4 @ [new_Position ''Y'' 1]
             \<and> s_position_count (get_position_statistics (snd (snd (check 1 ?per long_4 ?rule))))
               = 2"
    using n by (simp add: Let_def)
  with h g r show ?thesis by simp
qed

end
